theory Spec2Isabelle
  imports Complex_Main "HOL-Library.Product_Lexorder"
begin

section \<open>Python values, exceptions and strings\<close>

text \<open>
  The exceptions that the methods of \<^verbatim>\<open>main_app/models.py\<close> raise or let through, with
  the message where the interpreter or the source fixes it. \<^verbatim>\<open>InvalidOperation\<close> is that
  of \<^verbatim>\<open>decimal\<close>, \<^verbatim>\<open>IntegrityError\<close> that of the database. A method that raises returns
  \<open>Inl\<close> of the exception.
\<close>

datatype error =
    ValidationError string
  | AttributeError string
  | OverflowError string
  | ValueError string
  | InvalidOperation
  | IntegrityError

text \<open>
  A Python \<^verbatim>\<open>str\<close> is a sequence of code points. The model covers the code points
  U+0000 to U+00FF: a \<open>char\<close> is the code point with that number, and \<open>length\<close> counts
  code points as \<^verbatim>\<open>len\<close> does. The values handed to a field are strings, integers or
  \<^verbatim>\<open>None\<close>.
\<close>

datatype py_value = PyStr string | PyInt int | PyNone

text \<open>
  \<^verbatim>\<open>str.isnumeric\<close>: true when the string is not empty and every character has a Unicode
  numeric type (Decimal, Digit or Numeric). Between U+0000 and U+00FF these are the ten
  digits U+0030 to U+0039, the superscripts U+00B2, U+00B3 and U+00B9, and the vulgar
  fractions U+00BC, U+00BD and U+00BE.
\<close>

definition numeric_char :: "char \<Rightarrow> bool" where
  "numeric_char c =
     (let n = (of_char c :: nat)
      in (48 \<le> n \<and> n \<le> 57) \<or> n = 178 \<or> n = 179 \<or> n = 185 \<or> n = 188 \<or> n = 189 \<or> n = 190)"

definition isnumeric :: "string \<Rightarrow> bool" where
  "isnumeric s = (s \<noteq> [] \<and> list_all numeric_char s)"

text \<open>The ten characters \<^verbatim>\<open>0\<close> to \<^verbatim>\<open>9\<close>, the digits of a card number.\<close>

definition digit_char :: "char \<Rightarrow> bool" where
  "digit_char c = (let n = (of_char c :: nat) in 48 \<le> n \<and> n \<le> 57)"

text \<open>The slice \<^verbatim>\<open>value[-4:]\<close>: the last four characters, or all of a shorter string.\<close>

definition last4 :: "string \<Rightarrow> string" where
  "last4 s = drop (length s - 4) s"

text \<open>
  \<^verbatim>\<open>str(n)\<close> of an integer, as an f-string and \<^verbatim>\<open>%d\<close> format it, and a name between
  single quotes, as the messages of the interpreter show it.
\<close>

function str_digits :: "int \<Rightarrow> string" where
  "str_digits n =
     (if n < 10 then [char_of (48 + n)]
      else str_digits (n div 10) @ [char_of (48 + n mod 10)])"
  by pat_completeness auto
termination
  by (relation "measure nat") auto

declare str_digits.simps [simp del]

definition str_int :: "int \<Rightarrow> string" where
  "str_int n = (if n < 0 then CHR ''-'' # str_digits (- n) else str_digits n)"

definition quoted :: "string \<Rightarrow> string" where
  "quoted s = CHR 0x27 # s @ [CHR 0x27]"

section \<open>MaskedCreditCardField\<close>

text \<open>
  \<^verbatim>\<open>MaskedCreditCardField.to_python\<close> (models.py, lines 113 to 124): the three checks in
  the order of the source, then the masked number. It reads and writes no stored record.
\<close>

definition to_python :: "py_value \<Rightarrow> error + string" where
  "to_python v =
     (case v of
        PyStr s \<Rightarrow>
          if \<not> isnumeric s then
            Inl (ValidationError ''The card number must contain only digits'')
          else if length s \<noteq> 16 then
            Inl (ValidationError ''The card number must be exactly 16 characters long'')
          else Inr (''****-****-****-'' @ last4 s)
      | _ \<Rightarrow> Inl (ValidationError ''The card number must be a string''))"

section \<open>Calendar dates\<close>

text \<open>
  \<^verbatim>\<open>datetime.date\<close>: a year, a month and a day. Dates compare as the triples
  (year, month, day) do, in lexicographic order.
\<close>

record date =
  year :: int
  month :: int
  day :: int

definition ymd :: "date \<Rightarrow> int \<times> int \<times> int" where
  "ymd d = (year d, month d, day d)"

definition date_le :: "date \<Rightarrow> date \<Rightarrow> bool" where
  "date_le a b = (ymd a \<le> ymd b)"

definition date_lt :: "date \<Rightarrow> date \<Rightarrow> bool" where
  "date_lt a b = (ymd a < ymd b)"

text \<open>
  The proleptic Gregorian ordinal of a date (\<^verbatim>\<open>date.toordinal\<close>, day 1 is 0001-01-01) and
  its inverse (\<^verbatim>\<open>date.fromordinal\<close>), as the \<^verbatim>\<open>datetime\<close> module computes them.
\<close>

definition is_leap :: "int \<Rightarrow> bool" where
  "is_leap y = (y mod 4 = 0 \<and> (y mod 400 = 0 \<or> y mod 100 \<noteq> 0))"

definition DAYS_IN_MONTH :: "int list" where
  "DAYS_IN_MONTH = [31, 28, 31, 30, 31, 30, 31, 31, 30, 31, 30, 31]"

definition days_before_year :: "int \<Rightarrow> int" where
  "days_before_year y = (let y' = y - 1 in y' * 365 + y' div 4 - y' div 100 + y' div 400)"

definition days_before_month :: "int \<Rightarrow> int \<Rightarrow> int" where
  "days_before_month y m =
     sum_list (take (nat (m - 1)) DAYS_IN_MONTH) + (if 2 < m \<and> is_leap y then 1 else 0)"

definition toordinal :: "date \<Rightarrow> int" where
  "toordinal d = days_before_year (year d) + days_before_month (year d) (month d) + day d"

definition fromordinal :: "int \<Rightarrow> date" where
  "fromordinal n0 =
     (let n = n0 - 1;
          n400 = n div 146097; n = n mod 146097;
          n100 = n div 36524; n = n mod 36524;
          n4 = n div 1461; n = n mod 1461;
          n1 = n div 365; n = n mod 365;
          y = n400 * 400 + 1 + n100 * 100 + n4 * 4 + n1
      in if n1 = 4 \<or> n100 = 4 then \<lparr>year = y - 1, month = 12, day = 31\<rparr>
         else
           (let leapyear = (n1 = 3 \<and> (n100 = 3 \<or> n4 \<noteq> 24));
                m = (n + 50) div 32;
                preceding = sum_list (take (nat (m - 1)) DAYS_IN_MONTH)
                              + (if 2 < m \<and> leapyear then 1 else 0)
            in if n < preceding then
                 (let m' = m - 1;
                      preceding' = preceding - (DAYS_IN_MONTH ! nat (m' - 1)
                                     + (if m' = 2 \<and> leapyear then 1 else 0))
                  in \<lparr>year = y, month = m', day = n - preceding' + 1\<rparr>)
               else \<lparr>year = y, month = m, day = n - preceding + 1\<rparr>))"

text \<open>
  \<^verbatim>\<open>(b - a).days\<close> for two dates, and \<^verbatim>\<open>d + timedelta(days=n)\<close>. A number of days that is
  no C \<^verbatim>\<open>int\<close>, a \<^verbatim>\<open>timedelta\<close> of more than 999999999 days, and a sum outside 0001-01-01
  to 9999-12-31, raise \<^verbatim>\<open>OverflowError\<close>.
\<close>

definition days_between :: "date \<Rightarrow> date \<Rightarrow> int" where
  "days_between a b = toordinal b - toordinal a"

definition date_add_days :: "date \<Rightarrow> int \<Rightarrow> error + date" where
  "date_add_days d n =
     (if n < - 2147483648 \<or> 2147483647 < n then
        Inl (OverflowError ''Python int too large to convert to C int'')
      else if 999999999 < \<bar>n\<bar> then
        Inl (OverflowError (''days='' @ str_int n @ ''; must have magnitude <= 999999999''))
      else (let ord = toordinal d + n
            in if 0 < ord \<and> ord \<le> 3652059 then Inr (fromordinal ord)
               else Inl (OverflowError ''date value out of range'')))"

section \<open>Binary floating point\<close>

text \<open>
  A Python \<^verbatim>\<open>float\<close> is an IEEE 754 double. A finite double is modelled by the rational
  number it denotes, and each operation rounds its exact result to the nearest double
  (53 significant bits, ties to the even significand). The exponent is not bounded:
  the model is that of the doubles between \<open>2 ^ -1022\<close> and \<open>2 ^ 1024\<close> in magnitude, which
  holds every price of at most ten digits times a number of days.
\<close>

function bit_length :: "int \<Rightarrow> int" where
  "bit_length n = (if n \<le> 0 then 0 else 1 + bit_length (n div 2))"
  by pat_completeness auto
termination
  by (relation "measure nat") auto

declare bit_length.simps [simp del]

definition pow2 :: "int \<Rightarrow> rat" where
  "pow2 k = (if 0 \<le> k then 2 ^ nat k else 1 / 2 ^ nat (- k))"

text \<open>For \<open>0 < x\<close>, the exponent \<open>k\<close> with \<open>2 ^ k \<le> x < 2 ^ (k + 1)\<close>.\<close>

definition floor_log2 :: "rat \<Rightarrow> int" where
  "floor_log2 x =
     (let (p, q) = quotient_of x;
          k = bit_length p - bit_length q
      in if pow2 k \<le> x then k else k - 1)"

definition round_half_even :: "rat \<Rightarrow> int" where
  "round_half_even x =
     (let f = \<lfloor>x\<rfloor>; d = x - of_int f
      in if d < 1 / 2 then f else if 1 / 2 < d then f + 1
         else if f mod 2 = 0 then f else f + 1)"

definition to_double :: "rat \<Rightarrow> rat" where
  "to_double x =
     (if x = 0 then 0
      else (let e = floor_log2 \<bar>x\<bar> - 52; m = round_half_even (\<bar>x\<bar> / pow2 e)
            in sgn x * of_int m * pow2 e))"

text \<open>
  \<^verbatim>\<open>float(d)\<close> of a \<^verbatim>\<open>Decimal\<close> \<open>d\<close> (a rational), the product \<^verbatim>\<open>n * x\<close> of an \<^verbatim>\<open>int\<close> and a
  \<^verbatim>\<open>float\<close> (the integer is converted first), and \<^verbatim>\<open>round(x, 1)\<close>: the exact value of
  \<open>x\<close> rounded half-even to one decimal place, then to the nearest double.
\<close>

definition float_of_decimal :: "rat \<Rightarrow> rat" where
  "float_of_decimal d = to_double d"

definition int_times_float :: "int \<Rightarrow> rat \<Rightarrow> rat" where
  "int_times_float n x = to_double (to_double (of_int n) * x)"

definition round1 :: "rat \<Rightarrow> rat" where
  "round1 x = to_double (of_int (round_half_even (x * 10)) / 10)"

section \<open>Records and the record store\<close>

text \<open>
  The fields of \<^verbatim>\<open>Room\<close> and of \<^verbatim>\<open>BaseReservation\<close>, each with the primary key the
  framework gives a stored record (\<open>None\<close> before the first save). A room refers to its
  hotel by the hotel's key. A reservation holds the room it is for; a lookup by
  \<^verbatim>\<open>room=...\<close> compares the rooms' keys.
\<close>

record room =
  room_pk :: "nat option"
  hotel :: nat
  number :: string
  capacity :: int
  total_guests :: int
  price_per_night :: rat

record reservation =
  res_pk :: "nat option"
  room :: room
  start_date :: date
  end_date :: date

text \<open>
  The store is the framework's database, SQLite by default: the keys of the stored
  hotels, and one table for each concrete model.
\<close>

record store =
  hotels :: "nat list"
  rooms :: "room list"
  regular_reservations :: "reservation list"
  special_reservations :: "reservation list"

text \<open>
  What the database does with a value. An integer column holds 64-bit signed integers,
  and the driver raises \<^verbatim>\<open>OverflowError\<close> for any other. A
  \<^verbatim>\<open>DecimalField(max_digits=10, decimal_places=2)\<close> is rounded half-even to two places
  under a precision of ten digits, which raises \<^verbatim>\<open>decimal.InvalidOperation\<close> when the
  rounded value needs more than ten digits.
\<close>

definition SQLITE_MAX :: int where
  "SQLITE_MAX = 9223372036854775807"

definition sqlite_int :: "int \<Rightarrow> bool" where
  "sqlite_int n = (- SQLITE_MAX - 1 \<le> n \<and> n \<le> SQLITE_MAX)"

definition sqlite_key :: "nat option \<Rightarrow> bool" where
  "sqlite_key k = (case k of None \<Rightarrow> True | Some n \<Rightarrow> sqlite_int (int n))"

definition too_large :: error where
  "too_large = OverflowError ''Python int too large to convert to SQLite INTEGER''"

definition quantize2 :: "rat \<Rightarrow> rat" where
  "quantize2 d = of_int (round_half_even (d * 100)) / 100"

definition fits_ten_digits :: "rat \<Rightarrow> bool" where
  "fits_ten_digits d = (\<bar>round_half_even (d * 100)\<bar> < 10000000000)"

text \<open>
  What stops the row of a \<^verbatim>\<open>Room\<close> from being written (models.py, lines 138 to 142), in
  the order in which the failures arise: the price is prepared first, the integers are
  bound to the statement next, and the statement then meets the constraints of the
  table: the checks of the two \<^verbatim>\<open>PositiveIntegerField\<close>s, \<^verbatim>\<open>unique=True\<close> on the number,
  and the foreign key to the hotel. The row that is written holds the rounded price.
\<close>

definition Room_db_error :: "store \<Rightarrow> room \<Rightarrow> error option" where
  "Room_db_error st r =
     (if \<not> fits_ten_digits (price_per_night r) then Some InvalidOperation
      else if \<not> (sqlite_key (room_pk r) \<and> sqlite_int (int (hotel r))
                  \<and> sqlite_int (capacity r) \<and> sqlite_int (total_guests r))
      then Some too_large
      else if capacity r < 0 \<or> total_guests r < 0
              \<or> list_ex (\<lambda>x. number x = number r \<and> room_pk x \<noteq> room_pk r) (rooms st)
              \<or> hotel r \<notin> set (hotels st)
      then Some IntegrityError
      else None)"

definition Room_row :: "room \<Rightarrow> room" where
  "Room_row r = r\<lparr>price_per_night := quantize2 (price_per_night r)\<rparr>"

text \<open>
  What stops the row of a reservation from being written (models.py, lines 156 to 158):
  the framework refuses an instance whose room has no key, the keys are bound to the
  statement, and the foreign key asks for a stored room with that key.
\<close>

definition Reservation_db_error :: "store \<Rightarrow> reservation \<Rightarrow> error option" where
  "Reservation_db_error st r =
     (if room_pk (room r) = None then
        Some (ValueError (''save() prohibited to prevent data loss due to unsaved ''
                            @ ''related object '' @ quoted ''room'' @ ''.''))
      else if \<not> (sqlite_key (res_pk r) \<and> sqlite_key (room_pk (room r))) then Some too_large
      else if \<not> list_ex (\<lambda>x. room_pk x = room_pk (room r)) (rooms st) then
        Some IntegrityError
      else None)"

text \<open>
  The framework's \<^verbatim>\<open>Model.save\<close>. When the database refuses the row, its error is raised
  and nothing is written. Otherwise a record that has no key is inserted under a new
  key, one more than the largest key of the table; a record with a key replaces the row
  with that key, or is inserted when there is no such row. The store does not run out
  of keys.
\<close>

definition new_pk :: "nat option list \<Rightarrow> nat" where
  "new_pk ks = Suc (fold max (map (case_option 0 id) ks) 0)"

definition Model_save ::
  "('a \<Rightarrow> nat option) \<Rightarrow> (nat \<Rightarrow> 'a \<Rightarrow> 'a) \<Rightarrow> ('a \<Rightarrow> error option) \<Rightarrow> ('a \<Rightarrow> 'a)
     \<Rightarrow> 'a list \<Rightarrow> 'a \<Rightarrow> error + 'a \<times> 'a list" where
  "Model_save pk set_pk db_error to_row rows obj =
     (case db_error obj of
        Some e \<Rightarrow> Inl e
      | None \<Rightarrow>
          (case pk obj of
             None \<Rightarrow>
               (let obj' = set_pk (new_pk (map pk rows)) obj
                in Inr (obj', rows @ [to_row obj']))
           | Some k \<Rightarrow>
               if list_ex (\<lambda>x. pk x = Some k) rows
               then Inr (obj, map (\<lambda>x. if pk x = Some k then to_row obj else x) rows)
               else Inr (obj, rows @ [to_row obj])))"

text \<open>
  The classes at work: the two concrete reservation models, their metaclass
  \<^verbatim>\<open>ModelBase\<close>, and \<^verbatim>\<open>type\<close>. \<open>dunder_class\<close> is the attribute \<^verbatim>\<open>__class__\<close> of a class
  object. The manager \<^verbatim>\<open>objects\<close> is an attribute of a model class only: the framework
  adds it to each model, not to the metaclass, so looking it up on \<^verbatim>\<open>ModelBase\<close> raises
  \<^verbatim>\<open>AttributeError\<close>.
\<close>

datatype model_class = RegularReservation | SpecialReservation

datatype py_class = ModelClass model_class | ModelBase | PyType

fun dunder_class :: "py_class \<Rightarrow> py_class" where
  "dunder_class (ModelClass c) = ModelBase"
| "dunder_class ModelBase = PyType"
| "dunder_class PyType = PyType"

definition table :: "store \<Rightarrow> model_class \<Rightarrow> reservation list" where
  "table st c =
     (case c of RegularReservation \<Rightarrow> regular_reservations st
              | SpecialReservation \<Rightarrow> special_reservations st)"

definition no_attribute :: "string \<Rightarrow> string \<Rightarrow> error" where
  "no_attribute cls attr =
     AttributeError (''type object '' @ quoted cls @ '' has no attribute '' @ quoted attr)"

fun objects :: "store \<Rightarrow> py_class \<Rightarrow> error + reservation list" where
  "objects st (ModelClass c) = Inr (table st c)"
| "objects st ModelBase = Inl (no_attribute ''ModelBase'' ''objects'')"
| "objects st PyType = Inl (no_attribute ''type'' ''objects'')"

text \<open>
  \<^verbatim>\<open>filter(room=rm, end_date__gte=lo, start_date__lte=hi)\<close> over the rows of a table.
\<close>

definition filter_reservations ::
  "reservation list \<Rightarrow> room \<Rightarrow> date \<Rightarrow> date \<Rightarrow> reservation list" where
  "filter_reservations rows rm lo hi =
     filter (\<lambda>x. room_pk (room x) = room_pk rm \<and> date_le lo (end_date x)
                  \<and> date_le (start_date x) hi) rows"

section \<open>Room\<close>

text \<open>
  \<^verbatim>\<open>Room.clean\<close> and \<^verbatim>\<open>Room.save\<close> (models.py, lines 145 to 152). An exception of
  \<^verbatim>\<open>super().save()\<close> leaves \<^verbatim>\<open>save\<close> before the message is built.
\<close>

definition Room_clean :: "room \<Rightarrow> error + unit" where
  "Room_clean r =
     (if capacity r < total_guests r then
        Inl (ValidationError ''Total guests are more than the capacity of the room'')
      else Inr ())"

definition Room_save :: "store \<Rightarrow> room \<Rightarrow> (error + string) \<times> room \<times> store" where
  "Room_save st r =
     (case Room_clean r of
        Inl e \<Rightarrow> (Inl e, r, st)
      | Inr _ \<Rightarrow>
          (case Model_save room_pk (\<lambda>k x. x\<lparr>room_pk := Some k\<rparr>) (Room_db_error st) Room_row
                  (rooms st) r of
             Inl e \<Rightarrow> (Inl e, r, st)
           | Inr (r', rows') \<Rightarrow>
               (Inr (''Room '' @ number r' @ '' created successfully''),
                r', st\<lparr>rooms := rows'\<rparr>)))"

section \<open>Reservations\<close>

text \<open>
  \<^verbatim>\<open>BaseReservation\<close> (models.py, lines 155 to 186). The methods of the abstract base run
  on an instance of one of the two concrete models, \<open>c\<close>; \<^verbatim>\<open>self.__class__.objects\<close> is
  the table of that model.
\<close>

definition reservation_period :: "reservation \<Rightarrow> int" where
  "reservation_period r = days_between (start_date r) (end_date r)"

definition calculate_total_cost :: "reservation \<Rightarrow> rat" where
  "calculate_total_cost r =
     (let period = day (end_date r) - day (start_date r);
          total_price =
            int_times_float period (float_of_decimal (price_per_night (room r)))
      in round1 total_price)"

definition is_available :: "model_class \<Rightarrow> store \<Rightarrow> reservation \<Rightarrow> bool" where
  "is_available c st r =
     (let reservations = filter_reservations (table st c) (room r) (start_date r) (end_date r)
      in reservations = [])"

definition BaseReservation_clean :: "model_class \<Rightarrow> store \<Rightarrow> reservation \<Rightarrow> error + unit" where
  "BaseReservation_clean c st r =
     (if date_le (end_date r) (start_date r) then
        Inl (ValidationError ''Start date cannot be after or in the same end date'')
      else if \<not> is_available c st r then
        Inl (ValidationError (''Room '' @ number (room r) @ '' cannot be reserved''))
      else Inr ())"

text \<open>\<^verbatim>\<open>RegularReservation.save\<close> (models.py, lines 189 to 193).\<close>

definition RegularReservation_save ::
  "store \<Rightarrow> reservation \<Rightarrow> (error + string) \<times> reservation \<times> store" where
  "RegularReservation_save st r =
     (case BaseReservation_clean RegularReservation st r of
        Inl e \<Rightarrow> (Inl e, r, st)
      | Inr _ \<Rightarrow>
          (case Model_save res_pk (\<lambda>k x. x\<lparr>res_pk := Some k\<rparr>) (Reservation_db_error st)
                  (\<lambda>x. x) (regular_reservations st) r of
             Inl e \<Rightarrow> (Inl e, r, st)
           | Inr (r', rows') \<Rightarrow>
               (Inr (''Regular reservation for room '' @ number (room r')),
                r', st\<lparr>regular_reservations := rows'\<rparr>)))"

text \<open>\<^verbatim>\<open>SpecialReservation.save\<close> (models.py, lines 196 to 199).\<close>

definition SpecialReservation_save ::
  "store \<Rightarrow> reservation \<Rightarrow> (error + string) \<times> reservation \<times> store" where
  "SpecialReservation_save st r =
     (case BaseReservation_clean SpecialReservation st r of
        Inl e \<Rightarrow> (Inl e, r, st)
      | Inr _ \<Rightarrow> (Inr (''Regular reservation for room '' @ number (room r)), r, st))"

text \<open>
  \<^verbatim>\<open>SpecialReservation.extend_reservation\<close> (models.py, lines 201 to 214). The call on
  line 202 first evaluates \<^verbatim>\<open>SpecialReservation.__class__.objects\<close>, the attribute
  \<^verbatim>\<open>objects\<close> of the class of the class \<^verbatim>\<open>SpecialReservation\<close>, and its arguments after it.
\<close>

definition extend_reservation ::
  "store \<Rightarrow> reservation \<Rightarrow> int \<Rightarrow> (error + string) \<times> reservation \<times> store" where
  "extend_reservation st r days =
     (case objects st (dunder_class (ModelClass SpecialReservation)) of
        Inl e \<Rightarrow> (Inl e, r, st)
      | Inr rows \<Rightarrow>
          (case date_add_days (end_date r) days of
             Inl e \<Rightarrow> (Inl e, r, st)
           | Inr hi \<Rightarrow>
               (let reservations = filter_reservations rows (room r) (start_date r) hi
                in if reservations = [] then
                     (Inl (ValidationError ''Error during extending reservation''), r, st)
                   else
                     (case SpecialReservation_save st (r\<lparr>end_date := hi\<rparr>) of
                        (Inl e, r', st') \<Rightarrow> (Inl e, r', st')
                      | (Inr _, r', st') \<Rightarrow>
                          (Inr (''Extended reservation for room '' @ number (room r')
                                  @ '' with '' @ str_int days @ '' days''), r', st')))))"

section \<open>The overlap rule and example records\<close>

text \<open>
  The overlap rule as the specification words it: an existing reservation and a new one
  for the same room conflict when \<open>existing.end \<ge> new.start\<close> and
  \<open>existing.start \<le> new.end\<close>.
\<close>

definition overlap_rule :: "reservation \<Rightarrow> reservation \<Rightarrow> bool" where
  "overlap_rule existing new =
     (date_le (start_date new) (end_date existing)
      \<and> date_le (start_date existing) (end_date new))"

text \<open>
  Records for the examples: a stored room, bookings of that room, an empty store, and
  the store that holds hotel 1 and the room.
\<close>

definition mk_date :: "int \<Rightarrow> int \<Rightarrow> int \<Rightarrow> date" where
  "mk_date y m d = \<lparr>year = y, month = m, day = d\<rparr>"

definition room_101 :: room where
  "room_101 = \<lparr>room_pk = Some 1, hotel = 1, number = ''101'', capacity = 2,
                total_guests = 2, price_per_night = 100\<rparr>"

definition empty_store :: store where
  "empty_store =
     \<lparr>hotels = [], rooms = [], regular_reservations = [], special_reservations = []\<rparr>"

definition store_101 :: store where
  "store_101 =
     \<lparr>hotels = [1], rooms = [room_101], regular_reservations = [],
      special_reservations = []\<rparr>"

definition booking :: "date \<Rightarrow> date \<Rightarrow> reservation" where
  "booking s e = \<lparr>res_pk = None, room = room_101, start_date = s, end_date = e\<rparr>"

section \<open>Properties of the masked card field\<close>

lemma digit_char_numeric: "digit_char c \<Longrightarrow> numeric_char c"
  by (simp add: digit_char_def numeric_char_def Let_def)

lemma all_digits_isnumeric:
  assumes "list_all digit_char s" and "s \<noteq> []"
  shows "isnumeric s"
proof -
  have "list_all numeric_char s"
    using assms(1) by (induction s) (simp_all add: digit_char_numeric)
  with assms(2) show ?thesis by (simp add: isnumeric_def)
qed

lemma to_python_ok_iff:
  "(\<exists>m. to_python (PyStr s) = Inr m) \<longleftrightarrow> isnumeric s \<and> length s = 16"
  by (simp add: to_python_def)

lemma to_python_not_str:
  "to_python (PyInt n) = Inl (ValidationError ''The card number must be a string'')"
  "to_python PyNone = Inl (ValidationError ''The card number must be a string'')"
  by (simp_all add: to_python_def)

lemma to_python_not_numeric:
  "\<not> isnumeric s \<Longrightarrow>
     to_python (PyStr s) = Inl (ValidationError ''The card number must contain only digits'')"
  by (simp add: to_python_def)

lemma to_python_wrong_length:
  "length s \<noteq> 16 \<Longrightarrow> \<exists>msg. to_python (PyStr s) = Inl (ValidationError msg)"
  by (simp add: to_python_def)

text \<open>
  C3. For every string of exactly 16 characters, all of them digits, \<open>to_python\<close> returns
  \<^verbatim>\<open>****-****-****-\<close> followed by the last four characters of the string.
\<close>

theorem to_python_masks:
  assumes "length s = 16" and "list_all digit_char s"
  shows "to_python (PyStr s) = Inr (''****-****-****-'' @ last4 s) \<and> last4 s = drop 12 s"
proof -
  from assms(1) have "s \<noteq> []" by auto
  with assms(2) have "isnumeric s" by (simp add: all_digits_isnumeric)
  with assms(1) show ?thesis by (simp add: to_python_def last4_def)
qed

theorem to_python_masks_witness:
  "length ''1234567812345678'' = 16 \<and> list_all digit_char ''1234567812345678''
   \<and> to_python (PyStr ''1234567812345678'') = Inr ''****-****-****-5678''
   \<and> last4 ''1234567812345678'' = ''5678''"
proof -
  have l: "length ''1234567812345678'' = 16" by simp
  have d: "list_all digit_char ''1234567812345678''" by (simp add: digit_char_def)
  from to_python_masks[OF l d] l d show ?thesis by simp
qed

text \<open>
  C4. As specified, \<open>to_python\<close> raises a \<^verbatim>\<open>ValidationError\<close> for an input that is not a
  string, for one that holds a character that is not a digit, and for one whose length
  is not 16. The first and the last hold (\<open>to_python_not_str\<close>,
  \<open>to_python_wrong_length\<close>). The second does not: the check is \<^verbatim>\<open>str.isnumeric\<close>, which
  also accepts numeric characters that are no digits. Sixteen times the character
  U+00BD (vulgar fraction one half) pass every check and are masked.
\<close>

theorem to_python_accepts_fractions:
  "to_python (PyStr (replicate 16 (CHR 0xBD))) = Inr (''****-****-****-'' @ replicate 4 (CHR 0xBD))
   \<and> length (replicate 16 (CHR 0xBD)) = 16
   \<and> list_ex (\<lambda>c. \<not> digit_char c) (replicate 16 (CHR 0xBD))"
  by code_simp

text \<open>
  C5. As specified, applying \<open>to_python\<close> to the masked result of a valid card number returns
  it unchanged. It does not: the masked string holds \<^verbatim>\<open>*\<close> and \<^verbatim>\<open>-\<close>, so the digits check
  rejects it. As amended: \<open>to_python\<close> returns a masked value only for a string of exactly
  16 numeric characters, and whenever it returns a masked value, applying \<open>to_python\<close> to
  that value raises the \<^verbatim>\<open>ValidationError\<close> of the digits check.
\<close>

theorem to_python_again_raises:
  "((\<exists>m. to_python v = Inr m) \<longleftrightarrow> (\<exists>s. v = PyStr s \<and> isnumeric s \<and> length s = 16))
   \<and> (to_python (PyStr s) = Inr m \<longrightarrow>
        to_python (PyStr m) =
          Inl (ValidationError ''The card number must contain only digits''))"
proof (intro conjI impI)
  show "(\<exists>m. to_python v = Inr m) \<longleftrightarrow> (\<exists>s. v = PyStr s \<and> isnumeric s \<and> length s = 16)"
    by (cases v) (simp_all add: to_python_def)
next
  assume "to_python (PyStr s) = Inr m"
  then have "m = ''****-****-****-'' @ last4 s"
    by (auto simp: to_python_def split: if_splits)
  then have "\<not> isnumeric m"
    by (simp add: isnumeric_def numeric_char_def)
  then show "to_python (PyStr m) =
      Inl (ValidationError ''The card number must contain only digits'')"
    by (simp add: to_python_def)
qed

theorem to_python_again_raises_witness:
  "isnumeric ''1234567812345678'' \<and> length ''1234567812345678'' = 16
   \<and> to_python (PyStr ''1234567812345678'') = Inr ''****-****-****-5678''
   \<and> to_python (PyStr ''****-****-****-5678'') =
       Inl (ValidationError ''The card number must contain only digits'')
   \<and> \<not> isnumeric ''****-****-****-5678''"
proof -
  have m: "to_python (PyStr ''1234567812345678'') = Inr ''****-****-****-5678''"
    by code_simp
  have n: "\<not> isnumeric ''****-****-****-5678''"
    by code_simp
  from to_python_again_raises[of "PyStr ''1234567812345678''" "''1234567812345678''"
      "''****-****-****-5678''"] m
  have "isnumeric ''1234567812345678'' \<and> length ''1234567812345678'' = 16
      \<and> to_python (PyStr ''****-****-****-5678'') =
          Inl (ValidationError ''The card number must contain only digits'')"
    by auto
  with m n show ?thesis by simp
qed

theorem to_python_not_idempotent:
  "to_python (PyStr ''1234567812345678'') = Inr ''****-****-****-5678''
   \<and> to_python (PyStr ''****-****-****-5678'') \<noteq> Inr ''****-****-****-5678''"
  by code_simp

section \<open>Properties of the room\<close>

lemma Model_save_Inl:
  "Model_save pk set_pk db_error to_row rows obj = Inl e \<longleftrightarrow> db_error obj = Some e"
  by (auto simp: Model_save_def Let_def split: option.splits if_splits)

lemma Model_save_Inr:
  assumes "Model_save pk set_pk db_error to_row rows obj = Inr (obj', rows')"
  shows "db_error obj = None" and "to_row obj' \<in> set rows'"
    and "set rows' \<subseteq> insert (to_row obj') (set rows)"
    and "obj' = obj \<or> (pk obj = None \<and> obj' = set_pk (new_pk (map pk rows)) obj)"
  using assms
  by (auto simp: Model_save_def Let_def list_ex_iff split: option.splits if_splits)

lemma Model_save_keeps:
  assumes "Model_save pk set_pk db_error to_row rows obj = Inr (obj', rows')"
    and "x \<in> set rows" and "pk x \<noteq> pk obj'"
  shows "x \<in> set rows'"
  using assms
  by (auto simp: Model_save_def Let_def split: option.splits if_splits)

lemma Model_save_ok:
  "db_error obj = None \<Longrightarrow>
     \<exists>obj' rows'. Model_save pk set_pk db_error to_row rows obj = Inr (obj', rows')"
  by (auto simp: Model_save_def Let_def split: option.splits)

lemma Room_db_error_not_validation: "Room_db_error st r \<noteq> Some (ValidationError msg)"
  by (simp add: Room_db_error_def too_large_def)

text \<open>
  C6. As specified, \<open>Room_save\<close> raises a \<^verbatim>\<open>ValidationError\<close> exactly when the guests exceed
  the capacity, and otherwise stores the room and returns its message. The second half
  does not hold for every room: a second room with the number of a stored room passes
  \<open>Room_clean\<close> and is refused by the database (\<open>Room_save_refused_by_database\<close>). As
  amended: \<open>Room_save\<close> raises a \<^verbatim>\<open>ValidationError\<close> exactly when the guests exceed the
  capacity, and leaves the store as it was. Otherwise, when the database refuses the row,
  its error is raised and the store is left as it was; when it accepts the row,
  \<open>Room_save\<close> returns the message \<^verbatim>\<open>Room <number> created successfully\<close>, the row of the
  room (with its key and the rounded price) is in the rooms table, the rows of the other
  rooms are kept, and the other tables are untouched.
\<close>

theorem Room_save_cases:
  "((\<exists>msg. fst (Room_save st r) = Inl (ValidationError msg)) \<longleftrightarrow> capacity r < total_guests r)
   \<and> (capacity r < total_guests r \<longrightarrow>
        Room_save st r =
          (Inl (ValidationError ''Total guests are more than the capacity of the room''), r, st))
   \<and> (total_guests r \<le> capacity r \<and> Room_db_error st r = Some e \<longrightarrow>
        Room_save st r = (Inl e, r, st))
   \<and> (total_guests r \<le> capacity r \<and> Room_db_error st r = None \<longrightarrow>
        (case Room_save st r of
           (res, r', st') \<Rightarrow>
             res = Inr (''Room '' @ number r @ '' created successfully'')
             \<and> Room_row r' \<in> set (rooms st') \<and> r'\<lparr>room_pk := room_pk r\<rparr> = r
             \<and> set (rooms st') \<subseteq> insert (Room_row r') (set (rooms st))
             \<and> list_all (\<lambda>x. room_pk x = room_pk r' \<or> x \<in> set (rooms st')) (rooms st)
             \<and> hotels st' = hotels st
             \<and> regular_reservations st' = regular_reservations st
             \<and> special_reservations st' = special_reservations st))"
proof -
  let ?save = "Model_save room_pk (\<lambda>k x. x\<lparr>room_pk := Some k\<rparr>) (Room_db_error st) Room_row
                 (rooms st) r"
  have bad: "Room_save st r =
      (Inl (ValidationError ''Total guests are more than the capacity of the room''), r, st)"
    if "capacity r < total_guests r"
    using that by (simp add: Room_save_def Room_clean_def)
  have refused: "Room_save st r = (Inl e', r, st)"
    if "total_guests r \<le> capacity r" and "Room_db_error st r = Some e'" for e'
  proof -
    from that(2) have "?save = Inl e'" by (simp add: Model_save_Inl)
    with that(1) show ?thesis by (simp add: Room_save_def Room_clean_def)
  qed
  have stored: "case Room_save st r of
           (res, r', st') \<Rightarrow>
             res = Inr (''Room '' @ number r @ '' created successfully'')
             \<and> Room_row r' \<in> set (rooms st') \<and> r'\<lparr>room_pk := room_pk r\<rparr> = r
             \<and> set (rooms st') \<subseteq> insert (Room_row r') (set (rooms st))
             \<and> list_all (\<lambda>x. room_pk x = room_pk r' \<or> x \<in> set (rooms st')) (rooms st)
             \<and> hotels st' = hotels st
             \<and> regular_reservations st' = regular_reservations st
             \<and> special_reservations st' = special_reservations st"
    if le: "total_guests r \<le> capacity r" and ok: "Room_db_error st r = None"
  proof -
    from ok have "\<exists>r' rows'. ?save = Inr (r', rows')" by (rule Model_save_ok)
    then obtain r' rows' where ms: "?save = Inr (r', rows')" by blast
    from Model_save_Inr(2)[OF ms] have mem: "Room_row r' \<in> set rows'" .
    from Model_save_Inr(3)[OF ms]
    have sub: "set rows' \<subseteq> insert (Room_row r') (set (rooms st))" .
    from Model_save_keeps[OF ms]
    have keeps: "list_all (\<lambda>x. room_pk x = room_pk r' \<or> x \<in> set rows') (rooms st)"
      by (auto simp: list_all_iff)
    from Model_save_Inr(4)[OF ms]
    have obj: "r'\<lparr>room_pk := room_pk r\<rparr> = r \<and> number r' = number r" by auto
    from le ms mem sub keeps obj show ?thesis by (simp add: Room_save_def Room_clean_def)
  qed
  have iff: "(\<exists>msg. fst (Room_save st r) = Inl (ValidationError msg)) \<longleftrightarrow>
      capacity r < total_guests r"
  proof
    assume "\<exists>msg. fst (Room_save st r) = Inl (ValidationError msg)"
    then obtain msg where v: "fst (Room_save st r) = Inl (ValidationError msg)" ..
    show "capacity r < total_guests r"
    proof (rule ccontr)
      assume "\<not> capacity r < total_guests r"
      then have le: "total_guests r \<le> capacity r" by simp
      show False
      proof (cases "Room_db_error st r")
        case None
        from stored[OF le None] v show False by (auto split: prod.splits)
      next
        case (Some e')
        from refused[OF le Some] v have "e' = ValidationError msg" by simp
        with Some Room_db_error_not_validation show False by blast
      qed
    qed
  next
    assume "capacity r < total_guests r"
    from bad[OF this] show "\<exists>msg. fst (Room_save st r) = Inl (ValidationError msg)" by simp
  qed
  show ?thesis
  proof (intro conjI impI)
    show "(\<exists>msg. fst (Room_save st r) = Inl (ValidationError msg)) \<longleftrightarrow>
      capacity r < total_guests r"
      by (rule iff)
  next
    assume "capacity r < total_guests r"
    then show "Room_save st r =
      (Inl (ValidationError ''Total guests are more than the capacity of the room''), r, st)"
      by (rule bad)
  next
    assume "total_guests r \<le> capacity r \<and> Room_db_error st r = Some e"
    then show "Room_save st r = (Inl e, r, st)"
      using refused by blast
  next
    assume "total_guests r \<le> capacity r \<and> Room_db_error st r = None"
    then have "total_guests r \<le> capacity r" and "Room_db_error st r = None" by simp_all
    then show "case Room_save st r of
           (res, r', st') \<Rightarrow>
             res = Inr (''Room '' @ number r @ '' created successfully'')
             \<and> Room_row r' \<in> set (rooms st') \<and> r'\<lparr>room_pk := room_pk r\<rparr> = r
             \<and> set (rooms st') \<subseteq> insert (Room_row r') (set (rooms st))
             \<and> list_all (\<lambda>x. room_pk x = room_pk r' \<or> x \<in> set (rooms st')) (rooms st)
             \<and> hotels st' = hotels st
             \<and> regular_reservations st' = regular_reservations st
             \<and> special_reservations st' = special_reservations st"
      by (rule stored)
  qed
qed

theorem Room_save_cases_witness:
  "capacity (room_101\<lparr>total_guests := 3\<rparr>) < total_guests (room_101\<lparr>total_guests := 3\<rparr>)
   \<and> Room_save store_101 (room_101\<lparr>total_guests := 3\<rparr>) =
       (Inl (ValidationError ''Total guests are more than the capacity of the room''),
        room_101\<lparr>total_guests := 3\<rparr>, store_101)
   \<and> total_guests (room_101\<lparr>room_pk := None\<rparr>) \<le> capacity (room_101\<lparr>room_pk := None\<rparr>)
   \<and> Room_db_error (empty_store\<lparr>hotels := [1]\<rparr>) (room_101\<lparr>room_pk := None\<rparr>) = None
   \<and> Room_save (empty_store\<lparr>hotels := [1]\<rparr>) (room_101\<lparr>room_pk := None\<rparr>) =
       (Inr ''Room 101 created successfully'', room_101, store_101)
   \<and> Room_db_error empty_store (room_101\<lparr>room_pk := None\<rparr>) = Some IntegrityError
   \<and> Room_save empty_store (room_101\<lparr>room_pk := None\<rparr>) =
       (Inl IntegrityError, room_101\<lparr>room_pk := None\<rparr>, empty_store)"
proof -
  let ?new = "room_101\<lparr>room_pk := None\<rparr>"
  have a: "capacity (room_101\<lparr>total_guests := 3\<rparr>) < total_guests (room_101\<lparr>total_guests := 3\<rparr>)"
    by (simp add: room_101_def)
  have b: "total_guests ?new \<le> capacity ?new"
    by (simp add: room_101_def)
  have c: "Room_db_error (empty_store\<lparr>hotels := [1]\<rparr>) ?new = None"
    by code_simp
  have d: "Room_save (empty_store\<lparr>hotels := [1]\<rparr>) ?new =
       (Inr ''Room 101 created successfully'', room_101, store_101)"
    by code_simp
  have e: "Room_db_error empty_store ?new = Some IntegrityError"
    by code_simp
  from Room_save_cases[of store_101 "room_101\<lparr>total_guests := 3\<rparr>"] a
  have first: "Room_save store_101 (room_101\<lparr>total_guests := 3\<rparr>) =
       (Inl (ValidationError ''Total guests are more than the capacity of the room''),
        room_101\<lparr>total_guests := 3\<rparr>, store_101)"
    by blast
  from Room_save_cases[of empty_store ?new IntegrityError] b e
  have third: "Room_save empty_store ?new = (Inl IntegrityError, ?new, empty_store)"
    by blast
  from Room_save_cases[of "empty_store\<lparr>hotels := [1]\<rparr>" ?new] b c
  have second: "fst (Room_save (empty_store\<lparr>hotels := [1]\<rparr>) ?new) =
      Inr (''Room '' @ number ?new @ '' created successfully'')"
    by (auto split: prod.splits)
  from a b c d e first second third show ?thesis by simp
qed

theorem Room_save_refused_by_database:
  "total_guests (room_101\<lparr>room_pk := None\<rparr>) \<le> capacity (room_101\<lparr>room_pk := None\<rparr>)
   \<and> Room_save store_101 (room_101\<lparr>room_pk := None\<rparr>) =
       (Inl IntegrityError, room_101\<lparr>room_pk := None\<rparr>, store_101)"
  by code_simp

section \<open>Properties of the reservations\<close>

lemma date_lt_le: "date_lt a b \<Longrightarrow> date_le a b"
  by (simp add: date_lt_def date_le_def)

lemma not_date_le: "(\<not> date_le b a) = date_lt a b"
  by (auto simp: date_lt_def date_le_def)

lemma is_available_iff:
  "is_available c st r =
     (\<not> (\<exists>x \<in> set (table st c). room_pk (room x) = room_pk (room r)
            \<and> date_le (start_date r) (end_date x) \<and> date_le (start_date x) (end_date r)))"
  by (auto simp: is_available_def filter_reservations_def filter_empty_conv)

lemma clean_ok_iff:
  "BaseReservation_clean c st r = Inr () \<longleftrightarrow>
     date_lt (start_date r) (end_date r) \<and> is_available c st r"
  by (auto simp: BaseReservation_clean_def not_date_le[symmetric])

text \<open>
  C1. As specified, \<open>BaseReservation_clean\<close> raises the \<^verbatim>\<open>ValidationError\<close> of the date
  order exactly when the start date is not before the end date, and with the dates in
  order it raises the \<^verbatim>\<open>ValidationError\<close> that the room cannot be reserved exactly when
  some stored reservation for the same room overlaps by the overlap rule. The lookup is
  \<^verbatim>\<open>self.__class__.objects\<close>, the table of the instance's own model, so a stored regular
  reservation does not stop a special one for the same room and the same days
  (\<open>clean_ignores_other_model\<close>). As amended: with the dates in order,
  \<open>BaseReservation_clean\<close> raises the \<^verbatim>\<open>ValidationError\<close> that the room cannot be reserved
  exactly when a stored reservation of the same model for the same room ends on or after
  the new start and starts on or before the new end, which is when \<open>is_available\<close> is
  false; otherwise it succeeds.
\<close>

theorem BaseReservation_clean_cases:
  "(BaseReservation_clean c st r =
      Inl (ValidationError ''Start date cannot be after or in the same end date'')
    \<longleftrightarrow> date_le (end_date r) (start_date r))
   \<and> (date_lt (start_date r) (end_date r) \<longrightarrow>
        (BaseReservation_clean c st r =
           Inl (ValidationError (''Room '' @ number (room r) @ '' cannot be reserved''))
         \<longleftrightarrow> (\<exists>x \<in> set (table st c). room_pk (room x) = room_pk (room r)
               \<and> date_le (start_date r) (end_date x) \<and> date_le (start_date x) (end_date r)))
        \<and> (is_available c st r
         \<longleftrightarrow> \<not> (\<exists>x \<in> set (table st c). room_pk (room x) = room_pk (room r)
               \<and> date_le (start_date r) (end_date x) \<and> date_le (start_date x) (end_date r))))
   \<and> (date_lt (start_date r) (end_date r) \<and> is_available c st r \<longrightarrow>
        BaseReservation_clean c st r = Inr ())"
  by (auto simp: BaseReservation_clean_def is_available_iff not_date_le[symmetric])

theorem BaseReservation_clean_cases_witness:
  "date_le (end_date (booking (mk_date 2024 3 5) (mk_date 2024 3 5)))
           (start_date (booking (mk_date 2024 3 5) (mk_date 2024 3 5)))
   \<and> BaseReservation_clean RegularReservation store_101
         (booking (mk_date 2024 3 5) (mk_date 2024 3 5)) =
       Inl (ValidationError ''Start date cannot be after or in the same end date'')
   \<and> date_lt (start_date (booking (mk_date 2024 3 5) (mk_date 2024 3 8)))
             (end_date (booking (mk_date 2024 3 5) (mk_date 2024 3 8)))
   \<and> BaseReservation_clean RegularReservation
         (store_101\<lparr>regular_reservations :=
            [(booking (mk_date 2024 3 1) (mk_date 2024 3 5))\<lparr>res_pk := Some 1\<rparr>]\<rparr>)
         (booking (mk_date 2024 3 5) (mk_date 2024 3 8)) =
       Inl (ValidationError ''Room 101 cannot be reserved'')
   \<and> is_available RegularReservation
         (store_101\<lparr>regular_reservations :=
            [(booking (mk_date 2024 3 1) (mk_date 2024 3 5))\<lparr>res_pk := Some 1\<rparr>]\<rparr>)
         (booking (mk_date 2024 3 6) (mk_date 2024 3 8))
   \<and> BaseReservation_clean RegularReservation
         (store_101\<lparr>regular_reservations :=
            [(booking (mk_date 2024 3 1) (mk_date 2024 3 5))\<lparr>res_pk := Some 1\<rparr>]\<rparr>)
         (booking (mk_date 2024 3 6) (mk_date 2024 3 8)) = Inr ()"
proof -
  let ?st = "store_101\<lparr>regular_reservations :=
                [(booking (mk_date 2024 3 1) (mk_date 2024 3 5))\<lparr>res_pk := Some 1\<rparr>]\<rparr>"
  have a: "date_le (end_date (booking (mk_date 2024 3 5) (mk_date 2024 3 5)))
                   (start_date (booking (mk_date 2024 3 5) (mk_date 2024 3 5)))"
    by code_simp
  have b: "date_lt (start_date (booking (mk_date 2024 3 5) (mk_date 2024 3 8)))
                   (end_date (booking (mk_date 2024 3 5) (mk_date 2024 3 8)))"
    by code_simp
  have c: "\<exists>x \<in> set (table ?st RegularReservation).
             room_pk (room x) = room_pk (room (booking (mk_date 2024 3 5) (mk_date 2024 3 8)))
             \<and> date_le (start_date (booking (mk_date 2024 3 5) (mk_date 2024 3 8))) (end_date x)
             \<and> date_le (start_date x) (end_date (booking (mk_date 2024 3 5) (mk_date 2024 3 8)))"
    by code_simp
  have d: "date_lt (start_date (booking (mk_date 2024 3 6) (mk_date 2024 3 8)))
                   (end_date (booking (mk_date 2024 3 6) (mk_date 2024 3 8)))"
    by code_simp
  have e: "is_available RegularReservation ?st (booking (mk_date 2024 3 6) (mk_date 2024 3 8))"
    by code_simp
  have n: "number (room (booking (mk_date 2024 3 5) (mk_date 2024 3 8))) = ''101''"
    by (simp add: booking_def room_101_def)
  from BaseReservation_clean_cases[of RegularReservation store_101
      "booking (mk_date 2024 3 5) (mk_date 2024 3 5)"]
    BaseReservation_clean_cases[of RegularReservation ?st
      "booking (mk_date 2024 3 5) (mk_date 2024 3 8)"]
    BaseReservation_clean_cases[of RegularReservation ?st
      "booking (mk_date 2024 3 6) (mk_date 2024 3 8)"]
    a b c d e n
  show ?thesis by simp
qed

theorem clean_ignores_other_model:
  "(booking (mk_date 2024 3 1) (mk_date 2024 3 5))\<lparr>res_pk := Some 1\<rparr>
     \<in> set (regular_reservations
          (store_101\<lparr>regular_reservations :=
             [(booking (mk_date 2024 3 1) (mk_date 2024 3 5))\<lparr>res_pk := Some 1\<rparr>]\<rparr>))
   \<and> room_pk (room ((booking (mk_date 2024 3 1) (mk_date 2024 3 5))\<lparr>res_pk := Some 1\<rparr>))
       = room_pk (room (booking (mk_date 2024 3 2) (mk_date 2024 3 4)))
   \<and> overlap_rule ((booking (mk_date 2024 3 1) (mk_date 2024 3 5))\<lparr>res_pk := Some 1\<rparr>)
                  (booking (mk_date 2024 3 2) (mk_date 2024 3 4))
   \<and> date_lt (start_date (booking (mk_date 2024 3 2) (mk_date 2024 3 4)))
             (end_date (booking (mk_date 2024 3 2) (mk_date 2024 3 4)))
   \<and> is_available SpecialReservation
         (store_101\<lparr>regular_reservations :=
            [(booking (mk_date 2024 3 1) (mk_date 2024 3 5))\<lparr>res_pk := Some 1\<rparr>]\<rparr>)
         (booking (mk_date 2024 3 2) (mk_date 2024 3 4))
   \<and> BaseReservation_clean SpecialReservation
         (store_101\<lparr>regular_reservations :=
            [(booking (mk_date 2024 3 1) (mk_date 2024 3 5))\<lparr>res_pk := Some 1\<rparr>]\<rparr>)
         (booking (mk_date 2024 3 2) (mk_date 2024 3 4)) = Inr ()"
  by code_simp


lemma RegularReservation_save_fail:
  "BaseReservation_clean RegularReservation st r = Inl e \<Longrightarrow>
     RegularReservation_save st r = (Inl e, r, st)"
  by (simp add: RegularReservation_save_def)

lemma RegularReservation_save_refused:
  assumes "BaseReservation_clean RegularReservation st r = Inr ()"
    and "Reservation_db_error st r = Some e"
  shows "RegularReservation_save st r = (Inl e, r, st)"
proof -
  from assms(2)
  have "Model_save res_pk (\<lambda>k x. x\<lparr>res_pk := Some k\<rparr>) (Reservation_db_error st) (\<lambda>x. x)
          (regular_reservations st) r = Inl e"
    by (simp add: Model_save_Inl)
  with assms(1) show ?thesis by (simp add: RegularReservation_save_def)
qed

lemma RegularReservation_save_ok:
  assumes "BaseReservation_clean RegularReservation st r = Inr ()"
    and ok: "Reservation_db_error st r = None"
  shows "\<exists>r' st'. RegularReservation_save st r =
            (Inr (''Regular reservation for room '' @ number (room r)), r', st')
          \<and> r' \<in> set (regular_reservations st')
          \<and> set (regular_reservations st') \<subseteq> insert r' (set (regular_reservations st))
          \<and> room r' = room r \<and> start_date r' = start_date r \<and> end_date r' = end_date r
          \<and> rooms st' = rooms st"
proof -
  let ?save = "Model_save res_pk (\<lambda>k x. x\<lparr>res_pk := Some k\<rparr>) (Reservation_db_error st)
                 (\<lambda>x. x) (regular_reservations st) r"
  from ok have "\<exists>r' rows'. ?save = Inr (r', rows')" by (rule Model_save_ok)
  then obtain r' rows' where ms: "?save = Inr (r', rows')" by blast
  from Model_save_Inr(4)[OF ms]
  have obj: "room r' = room r \<and> start_date r' = start_date r \<and> end_date r' = end_date r"
    by auto
  from Model_save_Inr(2)[OF ms] Model_save_Inr(3)[OF ms] obj ms assms(1) show ?thesis
    by (simp add: RegularReservation_save_def)
qed

lemma RegularReservation_save_Inr:
  assumes "RegularReservation_save st r = (Inr m, r', st')"
  shows "BaseReservation_clean RegularReservation st r = Inr ()"
    and "Reservation_db_error st r = None"
proof -
  show cl: "BaseReservation_clean RegularReservation st r = Inr ()"
  proof (cases "BaseReservation_clean RegularReservation st r")
    case (Inl e)
    from RegularReservation_save_fail[OF Inl] assms show ?thesis by simp
  next
    case (Inr u)
    then show ?thesis by simp
  qed
  show "Reservation_db_error st r = None"
  proof (cases "Reservation_db_error st r")
    case None
    then show ?thesis .
  next
    case (Some e)
    from RegularReservation_save_refused[OF cl Some] assms show ?thesis by simp
  qed
qed



text \<open>
  C8. \<open>SpecialReservation_save\<close> runs the validation only: it leaves the store as it was in
  every case, it raises the error of a validation that fails, and for a reservation that
  passes the validation it returns its confirmation and the store unchanged.
\<close>

theorem SpecialReservation_save_no_persist:
  "snd (snd (SpecialReservation_save st r)) = st
   \<and> (BaseReservation_clean SpecialReservation st r = Inl e \<longrightarrow>
        SpecialReservation_save st r = (Inl e, r, st))
   \<and> (BaseReservation_clean SpecialReservation st r = Inr () \<longrightarrow>
        SpecialReservation_save st r =
          (Inr (''Regular reservation for room '' @ number (room r)), r, st))"
  by (simp add: SpecialReservation_save_def split: sum.splits)

theorem SpecialReservation_save_no_persist_witness:
  "BaseReservation_clean SpecialReservation store_101
      (booking (mk_date 2024 3 1) (mk_date 2024 3 5)) = Inr ()
   \<and> SpecialReservation_save store_101 (booking (mk_date 2024 3 1) (mk_date 2024 3 5)) =
       (Inr ''Regular reservation for room 101'',
        booking (mk_date 2024 3 1) (mk_date 2024 3 5), store_101)
   \<and> BaseReservation_clean SpecialReservation store_101
        (booking (mk_date 2024 3 5) (mk_date 2024 3 5)) =
       Inl (ValidationError ''Start date cannot be after or in the same end date'')
   \<and> SpecialReservation_save store_101 (booking (mk_date 2024 3 5) (mk_date 2024 3 5)) =
       (Inl (ValidationError ''Start date cannot be after or in the same end date''),
        booking (mk_date 2024 3 5) (mk_date 2024 3 5), store_101)"
proof -
  have c: "BaseReservation_clean SpecialReservation store_101
      (booking (mk_date 2024 3 1) (mk_date 2024 3 5)) = Inr ()"
    by code_simp
  have f: "BaseReservation_clean SpecialReservation store_101
        (booking (mk_date 2024 3 5) (mk_date 2024 3 5)) =
       Inl (ValidationError ''Start date cannot be after or in the same end date'')"
    by code_simp
  have n: "number (room (booking (mk_date 2024 3 1) (mk_date 2024 3 5))) = ''101''"
    by (simp add: booking_def room_101_def)
  from SpecialReservation_save_no_persist[of store_101
      "booking (mk_date 2024 3 1) (mk_date 2024 3 5)"]
    SpecialReservation_save_no_persist[of store_101
      "booking (mk_date 2024 3 5) (mk_date 2024 3 5)"
      "ValidationError ''Start date cannot be after or in the same end date''"]
    c f n
  show ?thesis by simp
qed

text \<open>
  C10. A stored reservation whose start is not after its end overlaps itself, so
  \<open>is_available\<close> is false for it. A reservation that \<open>RegularReservation_save\<close> has
  stored is in the table with its dates in order, and saving it again raises the
  \<^verbatim>\<open>ValidationError\<close> that the room cannot be reserved and leaves the store as it was.
\<close>

theorem persisted_reservation_unavailable:
  "(r \<in> set (table st c) \<and> date_le (start_date r) (end_date r) \<longrightarrow> \<not> is_available c st r)
   \<and> (RegularReservation_save st r = (Inr m, r', st') \<longrightarrow>
        r' \<in> set (regular_reservations st') \<and> date_lt (start_date r') (end_date r')
        \<and> RegularReservation_save st' r' =
            (Inl (ValidationError (''Room '' @ number (room r') @ '' cannot be reserved'')),
             r', st'))"
proof -
  have first: "r \<in> set (table st c) \<and> date_le (start_date r) (end_date r)
      \<longrightarrow> \<not> is_available c st r"
    by (auto simp: is_available_iff)
  have second: "r' \<in> set (regular_reservations st') \<and> date_lt (start_date r') (end_date r')
      \<and> RegularReservation_save st' r' =
          (Inl (ValidationError (''Room '' @ number (room r') @ '' cannot be reserved'')),
           r', st')"
    if s: "RegularReservation_save st r = (Inr m, r', st')"
  proof -
    from RegularReservation_save_Inr[OF s]
    have cl: "BaseReservation_clean RegularReservation st r = Inr ()"
      and ok: "Reservation_db_error st r = None"
      by simp_all
    from RegularReservation_save_ok[OF cl ok] s
    have mem: "r' \<in> set (regular_reservations st')"
      and eq: "start_date r' = start_date r" "end_date r' = end_date r"
      by auto
    from cl have lt: "date_lt (start_date r') (end_date r')"
      by (simp add: clean_ok_iff eq)
    then have "date_le (start_date r') (end_date r')" by (rule date_lt_le)
    with mem have "\<not> is_available RegularReservation st' r'"
      unfolding is_available_iff table_def by (simp, intro bexI[of _ r']) simp_all
    with lt have "BaseReservation_clean RegularReservation st' r' =
        Inl (ValidationError (''Room '' @ number (room r') @ '' cannot be reserved''))"
      by (simp add: BaseReservation_clean_def not_date_le)
    from RegularReservation_save_fail[OF this] mem lt show ?thesis by simp
  qed
  from first second show ?thesis by blast
qed

theorem persisted_reservation_unavailable_witness:
  "RegularReservation_save store_101 (booking (mk_date 2024 3 1) (mk_date 2024 3 5)) =
     (Inr ''Regular reservation for room 101'',
      (booking (mk_date 2024 3 1) (mk_date 2024 3 5))\<lparr>res_pk := Some 1\<rparr>,
      store_101\<lparr>regular_reservations :=
        [(booking (mk_date 2024 3 1) (mk_date 2024 3 5))\<lparr>res_pk := Some 1\<rparr>]\<rparr>)
   \<and> (booking (mk_date 2024 3 1) (mk_date 2024 3 5))\<lparr>res_pk := Some 1\<rparr>
       \<in> set (table (store_101\<lparr>regular_reservations :=
             [(booking (mk_date 2024 3 1) (mk_date 2024 3 5))\<lparr>res_pk := Some 1\<rparr>]\<rparr>)
           RegularReservation)
   \<and> date_le (start_date ((booking (mk_date 2024 3 1) (mk_date 2024 3 5))\<lparr>res_pk := Some 1\<rparr>))
             (end_date ((booking (mk_date 2024 3 1) (mk_date 2024 3 5))\<lparr>res_pk := Some 1\<rparr>))
   \<and> \<not> is_available RegularReservation
         (store_101\<lparr>regular_reservations :=
            [(booking (mk_date 2024 3 1) (mk_date 2024 3 5))\<lparr>res_pk := Some 1\<rparr>]\<rparr>)
         ((booking (mk_date 2024 3 1) (mk_date 2024 3 5))\<lparr>res_pk := Some 1\<rparr>)
   \<and> RegularReservation_save
         (store_101\<lparr>regular_reservations :=
            [(booking (mk_date 2024 3 1) (mk_date 2024 3 5))\<lparr>res_pk := Some 1\<rparr>]\<rparr>)
         ((booking (mk_date 2024 3 1) (mk_date 2024 3 5))\<lparr>res_pk := Some 1\<rparr>) =
       (Inl (ValidationError ''Room 101 cannot be reserved''),
        (booking (mk_date 2024 3 1) (mk_date 2024 3 5))\<lparr>res_pk := Some 1\<rparr>,
        store_101\<lparr>regular_reservations :=
          [(booking (mk_date 2024 3 1) (mk_date 2024 3 5))\<lparr>res_pk := Some 1\<rparr>]\<rparr>)"
proof -
  let ?r = "booking (mk_date 2024 3 1) (mk_date 2024 3 5)"
  let ?r' = "?r\<lparr>res_pk := Some 1\<rparr>"
  let ?st' = "store_101\<lparr>regular_reservations := [?r']\<rparr>"
  have s: "RegularReservation_save store_101 ?r =
      (Inr ''Regular reservation for room 101'', ?r', ?st')"
    by code_simp
  have mem: "?r' \<in> set (table ?st' RegularReservation)"
    by (simp add: table_def)
  have le: "date_le (start_date ?r') (end_date ?r')"
    by code_simp
  have n: "number (room ?r') = ''101''"
    by (simp add: booking_def room_101_def)
  from persisted_reservation_unavailable[where r = ?r' and st = ?st' and c = RegularReservation]
    mem le
  have na: "\<not> is_available RegularReservation ?st' ?r'"
    by blast
  from persisted_reservation_unavailable[where r = ?r and st = store_101
      and m = "''Regular reservation for room 101''" and r' = ?r' and st' = ?st'] s n
  have again: "RegularReservation_save ?st' ?r' =
      (Inl (ValidationError ''Room 101 cannot be reserved''), ?r', ?st')"
    by simp
  from s mem le na again show ?thesis by blast
qed

section \<open>Properties of the cost and of the extension\<close>

lemma same_month_period:
  assumes "year (start_date r) = year (end_date r)"
    and "month (start_date r) = month (end_date r)"
  shows "reservation_period r = day (end_date r) - day (start_date r)"
  using assms by (simp add: reservation_period_def days_between_def toordinal_def)

text \<open>
  C2. As specified, \<open>calculate_total_cost\<close> multiplies the number of days from the start date
  to the end date by the price of a night, so that five days at 100.00 cost 500.0. The
  code multiplies by the difference of the two days of the month instead. From
  2024-01-30 to 2024-02-04 \<open>reservation_period\<close> counts five days, and
  \<open>calculate_total_cost\<close> returns \<open>-2600.0\<close> at the price 100.00.
\<close>

theorem calculate_total_cost_across_months:
  "reservation_period (booking (mk_date 2024 1 30) (mk_date 2024 2 4)) = 5
   \<and> price_per_night (room (booking (mk_date 2024 1 30) (mk_date 2024 2 4))) = 100
   \<and> calculate_total_cost (booking (mk_date 2024 1 30) (mk_date 2024 2 4)) = - 2600"
  by code_simp

lemma extend_reservation_raises:
  "extend_reservation st r days = (Inl (no_attribute ''ModelBase'' ''objects''), r, st)"
  by (simp add: extend_reservation_def)

text \<open>
  C9. As specified, \<open>extend_reservation\<close> looks for the reservations of the room that overlap
  the extended range, raises a \<^verbatim>\<open>ValidationError\<close> when there is none, and otherwise moves
  the end date, stores the reservation and returns a confirmation. The code asks the
  metaclass of \<^verbatim>\<open>SpecialReservation\<close> for the manager, which raises \<^verbatim>\<open>AttributeError\<close>
  before any lookup. For a stored special reservation from 2024-03-01 to 2024-03-05
  extended by two days, the specified lookup finds the reservation itself, and the
  code raises \<^verbatim>\<open>AttributeError\<close> with the reservation and the store as they were.
\<close>

theorem extend_reservation_attribute_error:
  "date_add_days (end_date ((booking (mk_date 2024 3 1) (mk_date 2024 3 5))\<lparr>res_pk := Some 1\<rparr>)) 2
     = Inr (mk_date 2024 3 7)
   \<and> filter_reservations
        (table (empty_store\<lparr>special_reservations :=
                  [(booking (mk_date 2024 3 1) (mk_date 2024 3 5))\<lparr>res_pk := Some 1\<rparr>]\<rparr>)
           SpecialReservation)
        room_101 (mk_date 2024 3 1) (mk_date 2024 3 7)
      = [(booking (mk_date 2024 3 1) (mk_date 2024 3 5))\<lparr>res_pk := Some 1\<rparr>]
   \<and> extend_reservation
        (empty_store\<lparr>special_reservations :=
           [(booking (mk_date 2024 3 1) (mk_date 2024 3 5))\<lparr>res_pk := Some 1\<rparr>]\<rparr>)
        ((booking (mk_date 2024 3 1) (mk_date 2024 3 5))\<lparr>res_pk := Some 1\<rparr>) 2
      = (Inl (AttributeError
               (''type object '' @ quoted ''ModelBase'' @ '' has no attribute ''
                  @ quoted ''objects'')),
         (booking (mk_date 2024 3 1) (mk_date 2024 3 5))\<lparr>res_pk := Some 1\<rparr>,
         empty_store\<lparr>special_reservations :=
           [(booking (mk_date 2024 3 1) (mk_date 2024 3 5))\<lparr>res_pk := Some 1\<rparr>]\<rparr>)"
  by code_simp

end
